theory Spec2Isabelle
  imports Complex_Main "HOL-Library.Sublist"
begin

section \<open>Python values and exceptions\<close>

text \<open>
  The tool works on the objects that \<^verbatim>\<open>requests\<close> decodes from JSON: \<^verbatim>\<open>None\<close>, booleans,
  integers, strings, lists and dictionaries. A dictionary is an association list with
  distinct keys, read by the first match. JSON numbers with a fraction are left out: the
  counts and lifetimes of the streaming API are integers. A string is a list of bytes, the
  UTF-8 encoding of the Python string.
\<close>

datatype pyval =
    PNone
  | PBool bool
  | PInt int
  | PStr string
  | PList "pyval list"
  | PDict "(string \<times> pyval) list"

text \<open>Why a refresh failed: the three \<^verbatim>\<open>raise SpotifyAuthError(...)\<close> of the source.\<close>

datatype auth_failure =
    Credentials_not_provided
  | Failed_to_refresh int string
  | Missing_access_token pyval

text \<open>
  Every exception the tool can raise. The first three are raised by the source with a
  message; the others are raised by Python or by \<^verbatim>\<open>requests\<close>: \<open>IntLiteralError s\<close> is the
  \<^verbatim>\<open>ValueError\<close> of \<^verbatim>\<open>int(s)\<close>, \<open>JSONDecodeError\<close> that of \<^verbatim>\<open>r.json()\<close> on a body that is
  not JSON, \<open>RequestException\<close> a request that ends without a response (no connection,
  time-out). All of them derive from \<^verbatim>\<open>Exception\<close>.
\<close>

datatype py_error =
    SpotifyAuthError auth_failure
  | SpotifySearchError string
  | ValueError string
  | IntLiteralError string
  | AttributeError
  | TypeError
  | IndexError
  | JSONDecodeError
  | RequestException
  | RuntimeError string

section \<open>HTTP and the environment\<close>

text \<open>
  A request as the tool builds it. The \<^verbatim>\<open>Authorization\<close> header is kept as the data it
  encodes: \<open>Basic id secret\<close> stands for the Base64 text of \<^verbatim>\<open>id:secret\<close>, \<open>Bearer tok\<close> for
  \<^verbatim>\<open>Bearer\<close> followed by the token. The constant \<^verbatim>\<open>Content-Type\<close> header of the token request
  and the time-out of ten seconds are not part of the model.
\<close>

datatype auth_header = Basic string string | Bearer pyval

datatype http_request =
    POST string auth_header "(string \<times> string) list"
  | GET string auth_header "(string \<times> pyval) list"

text \<open>
  A response: \<open>json_body\<close> is what \<^verbatim>\<open>r.json()\<close> returns, \<open>None\<close> when the body is not JSON;
  \<open>body_text\<close> is \<^verbatim>\<open>r.text\<close>. A request may also end without a response.
\<close>

record http_response =
  status_code :: int
  headers :: "(string \<times> string) list"
  body_text :: string
  json_body :: "pyval option"

datatype http_outcome = Response http_response | No_response

text \<open>
  What the tool does not control: the clock (\<open>clock n\<close> is the value of the \<open>n\<close>-th call of
  \<^verbatim>\<open>time.time()\<close>), the server (its answer to a request, given the requests sent before),
  and what Python takes from its tables: \<^verbatim>\<open>str.lower\<close> (\<open>str_lower\<close>), the value of a code
  point that is a decimal digit (\<open>decimal_digit\<close>), \<^verbatim>\<open>repr\<close> of a list or dictionary, and the
  message of a built-in exception.
\<close>

record env =
  clock :: "nat \<Rightarrow> real"
  server :: "http_request list \<Rightarrow> http_request \<Rightarrow> http_outcome"
  str_lower :: "string \<Rightarrow> string"
  decimal_digit :: "string \<Rightarrow> nat option"
  py_repr :: "pyval \<Rightarrow> string"
  builtin_message :: "py_error \<Rightarrow> string"

record world =
  ticks :: nat
  sent :: "http_request list"

section \<open>Built-ins of Python used by the tool\<close>

text \<open>Truth value of an object, as \<^verbatim>\<open>if x\<close> and \<^verbatim>\<open>not x\<close> read it.\<close>

fun truthy :: "pyval \<Rightarrow> bool" where
  "truthy PNone = False"
| "truthy (PBool b) = b"
| "truthy (PInt i) = (i \<noteq> 0)"
| "truthy (PStr s) = (s \<noteq> [])"
| "truthy (PList xs) = (xs \<noteq> [])"
| "truthy (PDict kvs) = (kvs \<noteq> [])"

text \<open>\<^verbatim>\<open>d.get(k, default)\<close>: only a dictionary has the method.\<close>

fun py_get :: "pyval \<Rightarrow> string \<Rightarrow> pyval \<Rightarrow> py_error + pyval" where
  "py_get (PDict kvs) k d = (case map_of kvs k of None \<Rightarrow> Inr d | Some v \<Rightarrow> Inr v)"
| "py_get _ k d = Inl AttributeError"

text \<open>An object used as a number: \<^verbatim>\<open>bool\<close> is a subclass of \<^verbatim>\<open>int\<close>.\<close>

fun py_number :: "pyval \<Rightarrow> py_error + int" where
  "py_number (PInt i) = Inr i"
| "py_number (PBool b) = Inr (if b then 1 else 0)"
| "py_number _ = Inl TypeError"

subsection \<open>Strings\<close>

text \<open>
  A string is held as the UTF-8 bytes of the Python string. \<open>chars\<close> cuts it into its code
  points: a byte from 128 to 191 continues the code point before it. Emptiness and
  concatenation are the same on bytes and on code points, and so is \<^verbatim>\<open>sub in s\<close>: an
  encoded string occurs in another as a block of bytes exactly when it occurs there as a
  block of code points.
\<close>

definition continuation :: "char \<Rightarrow> bool" where
  "continuation c = (let n = (of_char c :: nat) in 128 \<le> n \<and> n < 192)"

function chars :: "string \<Rightarrow> string list" where
  "chars [] = []"
| "chars (c # cs) = (c # takeWhile continuation cs) # chars (dropWhile continuation cs)"
  by pat_completeness auto
termination
  by (relation "measure length") (auto simp: length_dropWhile_le less_Suc_eq_le)

text \<open>The number of a code point, from its bytes; 1114112 for bytes that encode none.\<close>

fun codepoint_of :: "nat list \<Rightarrow> nat" where
  "codepoint_of [a] = (if a < 128 then a else 1114112)"
| "codepoint_of [a, b] = (a - 192) * 64 + (b - 128)"
| "codepoint_of [a, b, c] = (a - 224) * 4096 + (b - 128) * 64 + (c - 128)"
| "codepoint_of [a, b, c, d] =
     (a - 240) * 262144 + (b - 128) * 4096 + (c - 128) * 64 + (d - 128)"
| "codepoint_of _ = 1114112"

definition codepoint :: "string \<Rightarrow> nat" where
  "codepoint c = codepoint_of (map of_char c)"

text \<open>
  \<^verbatim>\<open>s.lower()\<close> on an object: only a string has the method. The lowercase text is that
  of the environment, which stands for the case tables of Python.
\<close>

fun py_lower :: "env \<Rightarrow> pyval \<Rightarrow> py_error + string" where
  "py_lower e (PStr s) = Inr (str_lower e s)"
| "py_lower e _ = Inl AttributeError"

text \<open>\<^verbatim>\<open>sub in s\<close> on strings: \<open>sub\<close> occurs in \<open>s\<close> as a contiguous block.\<close>

fun contains :: "string \<Rightarrow> string \<Rightarrow> bool" where
  "contains sub [] = (sub = [])"
| "contains sub (c # cs) = (prefix sub (c # cs) \<or> contains sub cs)"

text \<open>
  \<^verbatim>\<open>str.isspace\<close> of one code point, the whitespace of \<^verbatim>\<open>str.strip()\<close> and of \<^verbatim>\<open>int()\<close>:
  U+0009 to U+000D, U+001C to U+0020, U+0085, U+00A0, U+1680, U+2000 to U+200A, U+2028,
  U+2029, U+202F, U+205F and U+3000.
\<close>

definition py_isspace :: "string \<Rightarrow> bool" where
  "py_isspace c =
     (let n = codepoint c
      in (9 \<le> n \<and> n \<le> 13) \<or> (28 \<le> n \<and> n \<le> 32) \<or> n = 133 \<or> n = 160 \<or> n = 5760
         \<or> (8192 \<le> n \<and> n \<le> 8202) \<or> n = 8232 \<or> n = 8233 \<or> n = 8239 \<or> n = 8287
         \<or> n = 12288)"

definition strip_chars :: "string list \<Rightarrow> string list" where
  "strip_chars cs = rev (dropWhile py_isspace (rev (dropWhile py_isspace cs)))"

definition strip :: "string \<Rightarrow> string" where
  "strip s = concat (strip_chars (chars s))"

text \<open>Iteration: a list gives its elements, a string its characters, a dictionary its keys.\<close>

fun py_iter :: "pyval \<Rightarrow> py_error + pyval list" where
  "py_iter (PList xs) = Inr xs"
| "py_iter (PStr s) = Inr (map PStr (chars s))"
| "py_iter (PDict kvs) = Inr (map (\<lambda>kv. PStr (fst kv)) kvs)"
| "py_iter _ = Inl TypeError"

text \<open>Decimal text of an integer, as \<^verbatim>\<open>str(n)\<close> and an f-string give it.\<close>

definition digit_char :: "nat \<Rightarrow> char" where
  "digit_char d = char_of (48 + d)"

function str_of_nat :: "nat \<Rightarrow> string" where
  "str_of_nat n = (if n < 10 then [digit_char n] else str_of_nat (n div 10) @ [digit_char (n mod 10)])"
  by pat_completeness auto
termination
  by (relation "measure id") auto

declare str_of_nat.simps [simp del]

definition str_of_int :: "int \<Rightarrow> string" where
  "str_of_int i = (if i < 0 then CHR ''-'' # str_of_nat (nat (- i)) else str_of_nat (nat i))"

text \<open>
  \<^verbatim>\<open>int(s)\<close> on a string: whitespace around the literal is dropped, one sign is allowed,
  then decimal digits, with single underscores between digits. Which code points are
  decimal digits, and their values, is the table of the environment.
\<close>

fun digits_value :: "env \<Rightarrow> nat \<Rightarrow> string list \<Rightarrow> nat option" where
  "digits_value e acc [] = Some acc"
| "digits_value e acc [c] =
     (case decimal_digit e c of None \<Rightarrow> None | Some v \<Rightarrow> Some (acc * 10 + v))"
| "digits_value e acc (c # d # ds) =
     (case decimal_digit e c of
        Some v \<Rightarrow> digits_value e (acc * 10 + v) (d # ds)
      | None \<Rightarrow>
          if c = ''_''
          then (case decimal_digit e d of
                  None \<Rightarrow> None
                | Some v \<Rightarrow> digits_value e (acc * 10 + v) ds)
          else None)"

definition unsigned_literal :: "env \<Rightarrow> string list \<Rightarrow> nat option" where
  "unsigned_literal e cs =
     (case cs of
        [] \<Rightarrow> None
      | c # rest \<Rightarrow>
          (case decimal_digit e c of None \<Rightarrow> None | Some v \<Rightarrow> digits_value e v rest))"

definition py_int :: "env \<Rightarrow> string \<Rightarrow> py_error + int" where
  "py_int e s =
     (let t = strip_chars (chars s);
          (neg, body) = (case t of [] \<Rightarrow> (False, [])
                         | c # cs \<Rightarrow> if c = ''-'' then (True, cs)
                                    else if c = ''+'' then (False, cs) else (False, t))
      in case unsigned_literal e body of
           None \<Rightarrow> Inl (IntLiteralError s)
         | Some n \<Rightarrow> Inr (if neg then - int n else int n))"

section \<open>The playlist ranker\<close>

text \<open>
  One round of the scoring loop of \<^verbatim>\<open>choose_best_playlist\<close>: the two lowercased fields are
  read first, then the keyword points, then the follower points.
\<close>

definition score_playlist :: "env \<Rightarrow> string \<Rightarrow> pyval \<Rightarrow> py_error + int" where
  "score_playlist env mood_lower p =
     (case py_get p ''name'' (PStr []) of Inl e \<Rightarrow> Inl e | Inr nm \<Rightarrow>
      case py_lower env nm of Inl e \<Rightarrow> Inl e | Inr name \<Rightarrow>
      case py_get p ''description'' (PStr []) of Inl e \<Rightarrow> Inl e | Inr ds \<Rightarrow>
      case py_lower env ds of Inl e \<Rightarrow> Inl e | Inr desc \<Rightarrow>
      let score = 0;
          score = (if contains mood_lower name then score + 50 else score);
          score = (if contains mood_lower desc then score + 30 else score)
      in case py_get p ''followers'' (PDict []) of Inl e \<Rightarrow> Inl e | Inr fl \<Rightarrow>
         case py_get fl ''total'' (PInt 0) of Inl e \<Rightarrow> Inl e | Inr tot \<Rightarrow>
         case py_number tot of Inl e \<Rightarrow> Inl e | Inr followers \<Rightarrow>
         Inr (score + min (followers div 1000) 20))"

text \<open>The loop that fills \<^verbatim>\<open>scored\<close>; the first exception ends it.\<close>

fun score_all ::
    "env \<Rightarrow> string \<Rightarrow> (int \<times> pyval) list \<Rightarrow> pyval list \<Rightarrow> py_error + (int \<times> pyval) list" where
  "score_all env mood_lower scored [] = Inr scored"
| "score_all env mood_lower scored (p # ps) =
     (case score_playlist env mood_lower p of
        Inl e \<Rightarrow> Inl e
      | Inr s \<Rightarrow> score_all env mood_lower (scored @ [(s, p)]) ps)"

text \<open>
  \<^verbatim>\<open>list.sort(key=..., reverse=True)\<close>: the list is reversed, sorted by a stable ascending
  sort, and reversed again, so equal keys keep their order.
\<close>

definition sort_reverse :: "('a \<Rightarrow> int) \<Rightarrow> 'a list \<Rightarrow> 'a list" where
  "sort_reverse key xs = rev (sort_key key (rev xs))"

definition choose_best_playlist ::
    "env \<Rightarrow> pyval list \<Rightarrow> string \<Rightarrow> py_error + pyval option" where
  "choose_best_playlist env playlists mood =
     (if playlists = [] then Inr None
      else case score_all env (str_lower env mood) [] playlists of
             Inl e \<Rightarrow> Inl e
           | Inr scored \<Rightarrow>
               (case sort_reverse fst scored of
                  [] \<Rightarrow> Inl IndexError
                | best # _ \<Rightarrow> Inr (Some (snd best))))"

section \<open>The tool object\<close>

text \<open>The fields of \<^verbatim>\<open>SpotifySearchTool\<close>; \<open>access_token = PNone\<close> is the empty cache.\<close>

record tool =
  client_id :: "string option"
  client_secret :: "string option"
  refresh_token :: "string option"
  access_token :: pyval
  token_expires_at :: real
  token_cache_seconds :: int

definition SPOTIFY_TOKEN_URL :: string where
  "SPOTIFY_TOKEN_URL = ''https://accounts.spotify.com/api/token''"

definition SPOTIFY_SEARCH_URL :: string where
  "SPOTIFY_SEARCH_URL = ''https://api.spotify.com/v1/search''"

text \<open>\<^verbatim>\<open>str(x)\<close>, which is also what an f-string and \<^verbatim>\<open>str.format\<close> insert.\<close>

definition py_str :: "env \<Rightarrow> pyval \<Rightarrow> string" where
  "py_str e v =
     (case v of
        PNone \<Rightarrow> ''None''
      | PBool b \<Rightarrow> (if b then ''True'' else ''False'')
      | PInt i \<Rightarrow> str_of_int i
      | PStr s \<Rightarrow> s
      | PList xs \<Rightarrow> py_repr e v
      | PDict kvs \<Rightarrow> py_repr e v)"

definition SPOTIFY_PLAYLIST_TRACKS_URL :: "env \<Rightarrow> pyval \<Rightarrow> string" where
  "SPOTIFY_PLAYLIST_TRACKS_URL e playlist_id =
     ''https://api.spotify.com/v1/playlists/'' @ py_str e playlist_id @ ''/tracks''"

text \<open>\<^verbatim>\<open>r.headers.get(k, d)\<close>: the header names of \<^verbatim>\<open>requests\<close> are compared without case.\<close>

definition header_get :: "env \<Rightarrow> (string \<times> string) list \<Rightarrow> string \<Rightarrow> string \<Rightarrow> string" where
  "header_get e hs k d =
     (case find (\<lambda>h. str_lower e (fst h) = str_lower e k) hs of None \<Rightarrow> d | Some h \<Rightarrow> snd h)"

definition present :: "string option \<Rightarrow> bool" where
  "present x = (case x of None \<Rightarrow> False | Some s \<Rightarrow> s \<noteq> [])"

definition text_of :: "string option \<Rightarrow> string" where
  "text_of x = (case x of None \<Rightarrow> ''None'' | Some s \<Rightarrow> s)"

definition credentials_present :: "tool \<Rightarrow> bool" where
  "credentials_present t =
     (present (client_id t) \<and> present (client_secret t) \<and> present (refresh_token t))"

definition token_request :: "tool \<Rightarrow> http_request" where
  "token_request t =
     POST SPOTIFY_TOKEN_URL (Basic (text_of (client_id t)) (text_of (client_secret t)))
       [(''grant_type'', ''refresh_token''), (''refresh_token'', text_of (refresh_token t))]"

section \<open>The token manager\<close>

text \<open>
  \<^verbatim>\<open>_refresh_access_token\<close>. The result is the value or the exception, with the tool and the
  world as the call leaves them. The token is stored before the expiry is computed, as in
  the source.
\<close>

definition refresh_access_token ::
    "env \<Rightarrow> tool \<Rightarrow> world \<Rightarrow> (py_error + pyval) \<times> tool \<times> world" where
  "refresh_access_token e t w =
     (if \<not> (present (client_id t) \<and> present (client_secret t) \<and> present (refresh_token t))
      then (Inl (SpotifyAuthError Credentials_not_provided), t, w)
      else
        let now = clock e (ticks w);
            w1 = w\<lparr>ticks := Suc (ticks w)\<rparr>
        in if truthy (access_token t) \<and> now < token_expires_at t
           then (Inr (access_token t), t, w1)
           else
             let req = token_request t;
                 w2 = w1\<lparr>sent := sent w1 @ [req]\<rparr>
             in case server e (sent w1) req of
                  No_response \<Rightarrow> (Inl RequestException, t, w2)
                | Response r \<Rightarrow>
                    if status_code r \<noteq> 200
                    then (Inl (SpotifyAuthError (Failed_to_refresh (status_code r) (body_text r))), t, w2)
                    else
                      (case json_body r of
                         None \<Rightarrow> (Inl JSONDecodeError, t, w2)
                       | Some token_response \<Rightarrow>
                          (case py_get token_response ''access_token'' PNone of
                             Inl x \<Rightarrow> (Inl x, t, w2)
                           | Inr tok \<Rightarrow>
                              (case py_get token_response ''expires_in'' (PInt 3600) of
                                 Inl x \<Rightarrow> (Inl x, t, w2)
                               | Inr expires_in \<Rightarrow>
                                  if \<not> truthy tok
                                  then (Inl (SpotifyAuthError (Missing_access_token token_response)), t, w2)
                                  else
                                    let t1 = t\<lparr>access_token := tok\<rparr>
                                    in (case py_number expires_in of
                                          Inl x \<Rightarrow> (Inl x, t1, w2)
                                        | Inr lifetime \<Rightarrow>
                                            (Inr tok,
                                             t1\<lparr>token_expires_at :=
                                                  now + real_of_int (min lifetime (token_cache_seconds t))\<rparr>,
                                             w2))))))"

section \<open>The search client\<close>

definition call_spotify ::
    "env \<Rightarrow> string \<Rightarrow> (string \<times> pyval) list \<Rightarrow> tool \<Rightarrow> world \<Rightarrow> (py_error + pyval) \<times> tool \<times> world" where
  "call_spotify e url params t w =
     (case refresh_access_token e t w of
        (Inl x, t1, w1) \<Rightarrow> (Inl x, t1, w1)
      | (Inr token, t1, w1) \<Rightarrow>
          let req = GET url (Bearer token) params;
              w2 = w1\<lparr>sent := sent w1 @ [req]\<rparr>
          in case server e (sent w1) req of
               No_response \<Rightarrow> (Inl RequestException, t1, w2)
             | Response r \<Rightarrow>
                 if status_code r = 429
                 then (case py_int e (header_get e (headers r) ''Retry-After'' ''1'') of
                         Inl x \<Rightarrow> (Inl x, t1, w2)
                       | Inr retry_after \<Rightarrow>
                           (Inl (SpotifySearchError
                                  (''Rate limited by Spotify. Retry after '' @ str_of_int retry_after
                                   @ '' seconds.'')), t1, w2))
                 else if status_code r \<ge> 400
                 then (Inl (SpotifySearchError
                             (''Spotify API error: '' @ str_of_int (status_code r) @ '' - ''
                              @ body_text r)), t1, w2)
                 else (case json_body r of
                         None \<Rightarrow> (Inl JSONDecodeError, t1, w2)
                       | Some v \<Rightarrow> (Inr v, t1, w2)))"

definition search_params :: "string \<Rightarrow> int \<Rightarrow> (string \<times> pyval) list" where
  "search_params mood limit =
     [(''q'', PStr (mood @ '' playlist'')), (''type'', PStr ''playlist''), (''limit'', PInt limit)]"

definition search_playlists ::
    "env \<Rightarrow> string \<Rightarrow> int \<Rightarrow> tool \<Rightarrow> world \<Rightarrow> (py_error + pyval list) \<times> tool \<times> world" where
  "search_playlists e mood limit t w =
     (if mood = [] \<or> strip mood = []
      then (Inl (ValueError ''Invalid mood value (empty).''), t, w)
      else case call_spotify e SPOTIFY_SEARCH_URL (search_params mood limit) t w of
             (Inl x, t1, w1) \<Rightarrow> (Inl x, t1, w1)
           | (Inr resp, t1, w1) \<Rightarrow>
               (case py_get resp ''playlists'' (PDict []) of
                  Inl x \<Rightarrow> (Inl x, t1, w1)
                | Inr pl \<Rightarrow>
                   (case py_get pl ''items'' (PList []) of
                      Inl x \<Rightarrow> (Inl x, t1, w1)
                    | Inr items \<Rightarrow>
                       (case py_iter items of
                          Inl x \<Rightarrow> (Inl x, t1, w1)
                        | Inr ps \<Rightarrow> (Inr (filter (\<lambda>p. p \<noteq> PNone) ps), t1, w1)))))"

text \<open>The list comprehension over the artists, then \<^verbatim>\<open>", ".join\<close>, which accepts strings only.\<close>

fun artist_names :: "pyval list \<Rightarrow> py_error + pyval list" where
  "artist_names [] = Inr []"
| "artist_names (a # as) =
     (case py_get a ''name'' (PStr []) of
        Inl x \<Rightarrow> Inl x
      | Inr n \<Rightarrow> (case artist_names as of Inl x \<Rightarrow> Inl x | Inr ns \<Rightarrow> Inr (n # ns)))"

fun str_items :: "pyval list \<Rightarrow> py_error + string list" where
  "str_items [] = Inr []"
| "str_items (PStr s # vs) = (case str_items vs of Inl x \<Rightarrow> Inl x | Inr ss \<Rightarrow> Inr (s # ss))"
| "str_items (_ # vs) = Inl TypeError"

fun join :: "string \<Rightarrow> string list \<Rightarrow> string" where
  "join sep [] = []"
| "join sep [s] = s"
| "join sep (s # s' # ss) = s @ sep @ join sep (s' # ss)"

definition py_join :: "string \<Rightarrow> pyval list \<Rightarrow> py_error + string" where
  "py_join sep vs = (case str_items vs of Inl x \<Rightarrow> Inl x | Inr ss \<Rightarrow> Inr (join sep ss))"

text \<open>The body of the track loop after the \<^verbatim>\<open>continue\<close>: the simplified track.\<close>

definition simplify_track :: "pyval \<Rightarrow> py_error + pyval" where
  "simplify_track track =
     (case py_get track ''name'' PNone of Inl x \<Rightarrow> Inl x | Inr name \<Rightarrow>
      case py_get track ''artists'' (PList []) of Inl x \<Rightarrow> Inl x | Inr arts \<Rightarrow>
      case py_iter arts of Inl x \<Rightarrow> Inl x | Inr as \<Rightarrow>
      case artist_names as of Inl x \<Rightarrow> Inl x | Inr names \<Rightarrow>
      case py_join '', '' names of Inl x \<Rightarrow> Inl x | Inr artists \<Rightarrow>
      case py_get track ''preview_url'' PNone of Inl x \<Rightarrow> Inl x | Inr preview_url \<Rightarrow>
      case py_get track ''external_urls'' (PDict []) of Inl x \<Rightarrow> Inl x | Inr eu \<Rightarrow>
      case py_get eu ''spotify'' PNone of Inl x \<Rightarrow> Inl x | Inr external_urls \<Rightarrow>
      Inr (PDict [(''name'', name), (''artists'', PStr artists),
                  (''preview_url'', preview_url), (''track_url'', external_urls)]))"

text \<open>
  The track loop: an entry without a track is skipped; a track is appended, and only then
  is the length compared with \<open>top_n\<close>.
\<close>

fun collect_tracks :: "int \<Rightarrow> pyval list \<Rightarrow> pyval list \<Rightarrow> py_error + pyval list" where
  "collect_tracks top_n tracks [] = Inr tracks"
| "collect_tracks top_n tracks (it # items) =
     (case py_get it ''track'' PNone of
        Inl x \<Rightarrow> Inl x
      | Inr track \<Rightarrow>
          if \<not> truthy track then collect_tracks top_n tracks items
          else (case simplify_track track of
                  Inl x \<Rightarrow> Inl x
                | Inr tr \<Rightarrow>
                    let tracks' = tracks @ [tr]
                    in if int (length tracks') \<ge> top_n then Inr tracks'
                       else collect_tracks top_n tracks' items))"

definition get_playlist_top_tracks ::
    "env \<Rightarrow> pyval \<Rightarrow> int \<Rightarrow> tool \<Rightarrow> world \<Rightarrow> (py_error + pyval list) \<times> tool \<times> world" where
  "get_playlist_top_tracks e playlist_id top_n t w =
     (case call_spotify e (SPOTIFY_PLAYLIST_TRACKS_URL e playlist_id) [(''limit'', PInt 50)] t w of
        (Inl x, t1, w1) \<Rightarrow> (Inl x, t1, w1)
      | (Inr resp, t1, w1) \<Rightarrow>
          (case py_get resp ''items'' (PList []) of
             Inl x \<Rightarrow> (Inl x, t1, w1)
           | Inr items \<Rightarrow>
              (case py_iter items of
                 Inl x \<Rightarrow> (Inl x, t1, w1)
               | Inr its \<Rightarrow> (collect_tracks top_n [] its, t1, w1))))"

section \<open>Orchestration: \<^verbatim>\<open>search_by_mood\<close>\<close>

text \<open>The metadata kept of the chosen playlist, fields read in the order of the source.\<close>

definition playlist_info :: "pyval \<Rightarrow> py_error + pyval \<times> pyval" where
  "playlist_info best =
     (case py_get best ''id'' PNone of Inl x \<Rightarrow> Inl x | Inr playlist_id \<Rightarrow>
      case py_get best ''name'' PNone of Inl x \<Rightarrow> Inl x | Inr name \<Rightarrow>
      case py_get best ''description'' PNone of Inl x \<Rightarrow> Inl x | Inr description \<Rightarrow>
      case py_get best ''external_urls'' (PDict []) of Inl x \<Rightarrow> Inl x | Inr eu \<Rightarrow>
      case py_get eu ''spotify'' PNone of Inl x \<Rightarrow> Inl x | Inr external_url \<Rightarrow>
      case py_get best ''owner'' (PDict []) of Inl x \<Rightarrow> Inl x | Inr ow \<Rightarrow>
      case py_get ow ''display_name'' PNone of Inl x \<Rightarrow> Inl x | Inr owner \<Rightarrow>
      Inr (playlist_id,
           PDict [(''id'', playlist_id), (''name'', name), (''description'', description),
                  (''external_url'', external_url), (''owner'', owner)]))"

definition search_by_mood ::
    "env \<Rightarrow> string \<Rightarrow> int \<Rightarrow> int \<Rightarrow> tool \<Rightarrow> world \<Rightarrow> (py_error + pyval) \<times> tool \<times> world" where
  "search_by_mood e mood playlists_limit top_n t w =
     (if mood = [] \<or> strip mood = []
      then (Inl (ValueError ''Mood cannot be empty.''), t, w)
      else case search_playlists e mood playlists_limit t w of
             (Inl x, t1, w1) \<Rightarrow> (Inl x, t1, w1)
           | (Inr playlists, t1, w1) \<Rightarrow>
               (case playlists of
                  [] \<Rightarrow> (Inl (SpotifySearchError
                               (''No playlists found for mood '' @ [CHR 0x27] @ mood @ [CHR 0x27]
                                @ ''.'')), t1, w1)
                | first # _ \<Rightarrow>
                   (case choose_best_playlist e playlists mood of
                      Inl x \<Rightarrow> (Inl x, t1, w1)
                    | Inr chosen \<Rightarrow>
                       let best = (case chosen of
                                     None \<Rightarrow> first
                                   | Some b \<Rightarrow> if truthy b then b else first)
                       in (case playlist_info best of
                             Inl x \<Rightarrow> (Inl x, t1, w1)
                           | Inr (playlist_id, info) \<Rightarrow>
                              (case get_playlist_top_tracks e playlist_id top_n t1 w1 of
                                 (Inl x, t2, w2) \<Rightarrow> (Inl x, t2, w2)
                               | (Inr tracks, t2, w2) \<Rightarrow>
                                   (Inr (PDict [(''playlist'', info), (''tracks'', PList tracks)]),
                                    t2, w2))))))"

section \<open>The result formatter\<close>

definition newline :: string where
  "newline = [CHR 0x0A]"

text \<open>The dash of the track line is U+2014, here its three UTF-8 bytes.\<close>

definition em_dash :: string where
  "em_dash = [CHR 0xE2, CHR 0x80, CHR 0x94]"

text \<open>\<^verbatim>\<open>a or b\<close> on objects.\<close>

definition py_or :: "pyval \<Rightarrow> pyval \<Rightarrow> pyval" where
  "py_or a b = (if truthy a then a else b)"

text \<open>One round of the loop over \<^verbatim>\<open>enumerate(tracks, start=1)\<close>: the line of track \<open>i\<close>.\<close>

definition track_line :: "env \<Rightarrow> int \<Rightarrow> pyval \<Rightarrow> py_error + string" where
  "track_line e i t =
     (case py_get t ''preview_url'' PNone of Inl x \<Rightarrow> Inl x | Inr pv \<Rightarrow>
      case py_get t ''track_url'' PNone of Inl x \<Rightarrow> Inl x | Inr tu \<Rightarrow>
      let preview = py_or (py_or pv tu) (PStr ''No preview'')
      in case py_get t ''name'' PNone of Inl x \<Rightarrow> Inl x | Inr name \<Rightarrow>
         case py_get t ''artists'' PNone of Inl x \<Rightarrow> Inl x | Inr artists \<Rightarrow>
         Inr (str_of_int i @ ''. '' @ py_str e name @ '' '' @ em_dash @ '' '' @ py_str e artists
              @ ''  |  Preview/Link: '' @ py_str e preview))"

fun track_lines :: "env \<Rightarrow> int \<Rightarrow> string list \<Rightarrow> pyval list \<Rightarrow> py_error + string list" where
  "track_lines e i lines [] = Inr lines"
| "track_lines e i lines (t # ts) =
     (case track_line e i t of
        Inl x \<Rightarrow> Inl x
      | Inr l \<Rightarrow> track_lines e (i + 1) (lines @ [l]) ts)"

definition format_result :: "env \<Rightarrow> pyval \<Rightarrow> py_error + string" where
  "format_result e result =
     (case py_get result ''playlist'' (PDict []) of Inl x \<Rightarrow> Inl x | Inr playlist \<Rightarrow>
      case py_get result ''tracks'' (PList []) of Inl x \<Rightarrow> Inl x | Inr tracks \<Rightarrow>
      case py_get playlist ''name'' PNone of Inl x \<Rightarrow> Inl x | Inr name \<Rightarrow>
      case py_get playlist ''owner'' PNone of Inl x \<Rightarrow> Inl x | Inr owner \<Rightarrow>
      case py_get playlist ''external_url'' PNone of Inl x \<Rightarrow> Inl x | Inr link \<Rightarrow>
      case py_get playlist ''description'' PNone of Inl x \<Rightarrow> Inl x | Inr description \<Rightarrow>
      let lines = [''Recommended playlist: '' @ py_str e name @ '' (by '' @ py_str e owner @ '')''];
          lines = (if truthy link then lines @ [''Playlist link: '' @ py_str e link] else lines);
          lines = (if truthy description
                   then lines @ [''Description: '' @ py_str e description] else lines);
          lines = lines @ [newline @ ''Top recommendations:''];
          lines = (if \<not> truthy tracks
                   then lines @ [''No tracks found in the playlist.''] else lines)
      in case py_iter tracks of Inl x \<Rightarrow> Inl x | Inr ts \<Rightarrow>
         case track_lines e 1 lines ts of Inl x \<Rightarrow> Inl x | Inr all_lines \<Rightarrow>
         Inr (join newline all_lines))"

section \<open>The top-level helper\<close>

text \<open>\<^verbatim>\<open>str(e)\<close> of an exception: the message it was raised with.\<close>

definition str_exc :: "env \<Rightarrow> py_error \<Rightarrow> string" where
  "str_exc e x =
     (case x of
        SpotifyAuthError Credentials_not_provided \<Rightarrow>
          ''Spotify client ID / secret / refresh token not provided.''
      | SpotifyAuthError (Failed_to_refresh code body) \<Rightarrow>
          ''Failed to refresh token: '' @ str_of_int code @ '' '' @ body
      | SpotifyAuthError (Missing_access_token resp) \<Rightarrow>
          ''Refresh response missing access_token: '' @ py_str e resp
      | SpotifySearchError m \<Rightarrow> m
      | ValueError m \<Rightarrow> m
      | RuntimeError m \<Rightarrow> m
      | _ \<Rightarrow> builtin_message e x)"

text \<open>
  The agent of the framework, when there is one: its \<^verbatim>\<open>run\<close> and \<^verbatim>\<open>respond\<close> methods, each
  present or not. A method gives the text of its answer or raises, and may use the tool.
\<close>

record agent =
  run :: "(string \<Rightarrow> tool \<Rightarrow> world \<Rightarrow> (py_error + string) \<times> tool \<times> world) option"
  respond :: "(string \<Rightarrow> tool \<Rightarrow> world \<Rightarrow> (py_error + string) \<times> tool \<times> world) option"

definition user_prompt :: "string \<Rightarrow> string" where
  "user_prompt mood =
     ''User mood: '' @ mood @ newline
     @ ''Action: Use spotify_search_tool to find the best playlist and return top 5 tracks.''"

text \<open>The \<^verbatim>\<open>try\<close> block of the agent branch.\<close>

definition ask_agent ::
    "agent \<Rightarrow> string \<Rightarrow> tool \<Rightarrow> world \<Rightarrow> (py_error + string) \<times> tool \<times> world" where
  "ask_agent ag mood t w =
     (case run ag of
        Some r \<Rightarrow> r (user_prompt mood) t w
      | None \<Rightarrow>
         (case respond ag of
            Some r \<Rightarrow> r (user_prompt mood) t w
          | None \<Rightarrow> (Inl (RuntimeError ''ADK agent present but lacks run/respond method.''), t, w)))"

text \<open>The direct call of both branches: \<^verbatim>\<open>format_result(spotify_tool.search_by_mood(mood))\<close>.\<close>

definition direct_call ::
    "env \<Rightarrow> string \<Rightarrow> tool \<Rightarrow> world \<Rightarrow> (py_error + string) \<times> tool \<times> world" where
  "direct_call e mood t w =
     (case search_by_mood e mood 10 5 t w of
        (Inl x, t1, w1) \<Rightarrow> (Inl x, t1, w1)
      | (Inr result, t1, w1) \<Rightarrow> (format_result e result, t1, w1))"

definition handle_mood_with_agent ::
    "env \<Rightarrow> agent option \<Rightarrow> string \<Rightarrow> tool \<Rightarrow> world \<Rightarrow> (py_error + string) \<times> tool \<times> world" where
  "handle_mood_with_agent e root_agent mood t w =
     (case root_agent of
        Some ag \<Rightarrow>
          (case ask_agent ag mood t w of
             (Inr answer, t1, w1) \<Rightarrow> (Inr answer, t1, w1)
           | (Inl x, t1, w1) \<Rightarrow>
               let fallback_reason =
                     ''(Agent orchestration failed with: '' @ str_exc e x @ '')'' @ newline
                     @ ''Falling back to direct Spotify call.'' @ newline
               in (case direct_call e mood t1 w1 of
                     (Inr s, t2, w2) \<Rightarrow> (Inr (fallback_reason @ s), t2, w2)
                   | (Inl x2, t2, w2) \<Rightarrow>
                       (Inr (fallback_reason @ ''Also failed to get data from Spotify: ''
                             @ str_exc e x2), t2, w2)))
      | None \<Rightarrow>
          (case direct_call e mood t w of
             (Inr s, t1, w1) \<Rightarrow> (Inr s, t1, w1)
           | (Inl (SpotifySearchError m), t1, w1) \<Rightarrow> (Inr (''Spotify API error: '' @ m), t1, w1)
           | (Inl x, t1, w1) \<Rightarrow> (Inr (''Unexpected error: '' @ str_exc e x), t1, w1)))"

section \<open>The token cache and the formatted text, as the specification words them\<close>

definition cached_valid :: "env \<Rightarrow> tool \<Rightarrow> world \<Rightarrow> bool" where
  "cached_valid e t w = (truthy (access_token t) \<and> clock e (ticks w) < token_expires_at t)"

definition token_field :: "(string \<times> pyval) list \<Rightarrow> pyval" where
  "token_field body = (case map_of body ''access_token'' of None \<Rightarrow> PNone | Some v \<Rightarrow> v)"

definition declared_lifetime :: "(string \<times> pyval) list \<Rightarrow> py_error + int" where
  "declared_lifetime body =
     py_number (case map_of body ''expires_in'' of None \<Rightarrow> PInt 3600 | Some v \<Rightarrow> v)"

text \<open>What one refresh exchange does, by the answer of the server.\<close>

definition exchange_result :: "env \<Rightarrow> tool \<Rightarrow> world \<Rightarrow> (py_error + pyval) \<times> tool" where
  "exchange_result e t w =
     (case server e (sent w) (token_request t) of
        No_response \<Rightarrow> (Inl RequestException, t)
      | Response r \<Rightarrow>
          if status_code r \<noteq> 200
          then (Inl (SpotifyAuthError (Failed_to_refresh (status_code r) (body_text r))), t)
          else (case json_body r of
                  None \<Rightarrow> (Inl JSONDecodeError, t)
                | Some (PDict body) \<Rightarrow>
                    if \<not> truthy (token_field body)
                    then (Inl (SpotifyAuthError (Missing_access_token (PDict body))), t)
                    else (case declared_lifetime body of
                            Inl x \<Rightarrow> (Inl x, t\<lparr>access_token := token_field body\<rparr>)
                          | Inr lifetime \<Rightarrow>
                              (Inr (token_field body),
                               t\<lparr>access_token := token_field body,
                                 token_expires_at := clock e (ticks w)
                                     + real_of_int (min lifetime (token_cache_seconds t))\<rparr>))
                | Some _ \<Rightarrow> (Inl AttributeError, t)))"

text \<open>
  The layout of the formatted text: a field of a dictionary (\<^verbatim>\<open>None\<close> when missing),
  the entry of one track, and the lines before the tracks.
\<close>

definition field :: "(string \<times> pyval) list \<Rightarrow> string \<Rightarrow> pyval" where
  "field d k = (case map_of d k of None \<Rightarrow> PNone | Some v \<Rightarrow> v)"

definition track_entry :: "env \<Rightarrow> nat \<Rightarrow> (string \<times> pyval) list \<Rightarrow> string" where
  "track_entry e rank t =
     str_of_int (int rank) @ ''. '' @ py_str e (field t ''name'') @ '' '' @ em_dash @ '' ''
     @ py_str e (field t ''artists'') @ ''  |  Preview/Link: ''
     @ py_str e (if truthy (field t ''preview_url'') then field t ''preview_url''
                 else if truthy (field t ''track_url'') then field t ''track_url''
                 else PStr ''No preview'')"

definition heading :: "env \<Rightarrow> (string \<times> pyval) list \<Rightarrow> string list" where
  "heading e playlist =
     [''Recommended playlist: '' @ py_str e (field playlist ''name'') @ '' (by ''
      @ py_str e (field playlist ''owner'') @ '')'']
     @ (if truthy (field playlist ''external_url'')
        then [''Playlist link: '' @ py_str e (field playlist ''external_url'')] else [])
     @ (if truthy (field playlist ''description'')
        then [''Description: '' @ py_str e (field playlist ''description'')] else [])
     @ [newline @ ''Top recommendations:'']"

section \<open>Concrete inputs\<close>

text \<open>The two candidates of the ranker example, the follower count under \<^verbatim>\<open>followers.total\<close>.\<close>

definition happy_vibes :: pyval where
  "happy_vibes =
     PDict [(''name'', PStr ''happy vibes''), (''followers'', PDict [(''total'', PInt 2000)])]"

definition sad_songs :: pyval where
  "sad_songs =
     PDict [(''name'', PStr ''sad songs''), (''followers'', PDict [(''total'', PInt 50000)])]"

definition null_description :: pyval where
  "null_description =
     PDict [(''name'', PStr ''Happy Vibes''), (''description'', PNone),
            (''followers'', PDict [(''total'', PInt 2000)])]"

definition happy_hour :: pyval where
  "happy_hour =
     PDict [(''name'', PStr ''Happy Hour''), (''description'', PStr ''be HAPPY all day''),
            (''followers'', PDict [(''total'', PInt 25500)])]"

definition happy_mix :: pyval where
  "happy_mix =
     PDict [(''name'', PStr ''Happy Mix''), (''followers'', PDict [(''total'', PInt 2999)])]"

text \<open>
  The tables of the example environments give \<^verbatim>\<open>str.lower\<close> and the decimal digits on
  ASCII text, which is all the text of the examples.
\<close>

definition ascii_lower_char :: "char \<Rightarrow> char" where
  "ascii_lower_char c =
     (let n = (of_char c :: nat) in if 65 \<le> n \<and> n \<le> 90 then char_of (n + 32) else c)"

definition ascii_lower :: "string \<Rightarrow> string" where
  "ascii_lower s = map ascii_lower_char s"

definition ascii_digit :: "string \<Rightarrow> nat option" where
  "ascii_digit c =
     (case c of
        [x] \<Rightarrow> (let n = (of_char x :: nat) in if 48 \<le> n \<and> n \<le> 57 then Some (n - 48) else None)
      | _ \<Rightarrow> None)"

definition no_server :: "http_request list \<Rightarrow> http_request \<Rightarrow> http_outcome" where
  "no_server history req = No_response"

definition json_server :: "int \<Rightarrow> pyval \<Rightarrow> http_request list \<Rightarrow> http_request \<Rightarrow> http_outcome" where
  "json_server code body history req =
     Response \<lparr>status_code = code, headers = [], body_text = [], json_body = Some body\<rparr>"

definition offline_env :: env where
  "offline_env = \<lparr>clock = (\<lambda>n. 100), server = no_server,
                  str_lower = ascii_lower, decimal_digit = ascii_digit,
                  py_repr = (\<lambda>v. ''<object>''), builtin_message = (\<lambda>x. ''<error>'')\<rparr>"

definition world0 :: world where
  "world0 = \<lparr>ticks = 0, sent = []\<rparr>"

definition unconfigured_tool :: tool where
  "unconfigured_tool = \<lparr>client_id = None, client_secret = None, refresh_token = None,
       access_token = PNone, token_expires_at = 0, token_cache_seconds = 300\<rparr>"

definition configured_tool :: tool where
  "configured_tool = \<lparr>client_id = Some ''id'', client_secret = Some ''secret'',
       refresh_token = Some ''refresh'', access_token = PNone, token_expires_at = 0,
       token_cache_seconds = 300\<rparr>"

definition stale_tool :: tool where
  "stale_tool = configured_tool\<lparr>access_token := PStr ''old-token'', token_expires_at := 50\<rparr>"

definition cached_tool :: tool where
  "cached_tool = configured_tool\<lparr>access_token := PStr ''cached-token'', token_expires_at := 1000\<rparr>"

definition fresh_token_env :: env where
  "fresh_token_env = offline_env\<lparr>server :=
      json_server 200 (PDict [(''access_token'', PStr ''fresh-token''), (''expires_in'', PInt 3600)])\<rparr>"

definition null_lifetime_env :: env where
  "null_lifetime_env = offline_env\<lparr>server :=
      json_server 200 (PDict [(''access_token'', PStr ''new-token''), (''expires_in'', PNone)])\<rparr>"

definition rate_limited_env :: env where
  "rate_limited_env = offline_env\<lparr>server := (\<lambda>history req.
      Response \<lparr>status_code = 429,
                headers = [(''Retry-After'', ''Wed, 21 Oct 2015 07:28:00 GMT'')],
                body_text = ''Too Many Requests'', json_body = None\<rparr>)\<rparr>"

definition song :: "string \<Rightarrow> pyval" where
  "song title =
     PDict [(''track'',
             PDict [(''name'', PStr title),
                    (''artists'', PList [PDict [(''name'', PStr ''Band'')]]),
                    (''preview_url'', PNone),
                    (''external_urls'',
                     PDict [(''spotify'', PStr ''https://open.spotify.com/track/1'')])])]"

definition two_tracks_env :: env where
  "two_tracks_env = offline_env\<lparr>server :=
      json_server 200 (PDict [(''items'', PList [song ''Song A'', song ''Song B''])])\<rparr>"

definition six_tracks :: pyval where
  "six_tracks = PDict [(''playlist'', PDict [(''name'', PStr ''Mix''), (''owner'', PStr ''Ann'')]),
     (''tracks'', PList (map (\<lambda>n. PDict [(''name'', PStr n), (''artists'', PStr ''Band''),
                                  (''preview_url'', PNone), (''track_url'', PNone)])
                             [''a'', ''b'', ''c'', ''d'', ''e'', ''f'']))]"

definition empty_result :: pyval where
  "empty_result = PDict [(''playlist'', PDict [(''name'', PStr ''Mix''), (''owner'', PNone),
        (''external_url'', PStr ''http://x''), (''description'', PStr [])]),
     (''tracks'', PList [])]"

section \<open>Properties of the ranker\<close>

lemma contains_sublist: "contains sub s = sublist sub s"
  by (induction s) (auto simp: sublist_Cons_right)

text \<open>
  The score of a well-formed candidate. For every candidate whose name and description are
  strings and whose follower count is an integer (each read with the default of the source
  when the key is missing), and for every mood, the scoring loop gives 50 if the lowercased
  mood occurs in the lowercased name, plus 30 if it occurs in the lowercased description,
  plus \<open>min (follower_count div 1000) 20\<close>.
\<close>

lemma score_playlist_formula:
  assumes "py_get p ''name'' (PStr []) = Inr (PStr name)"
      and "py_get p ''description'' (PStr []) = Inr (PStr description)"
      and "py_get p ''followers'' (PDict []) = Inr followers"
      and "py_get followers ''total'' (PInt 0) = Inr (PInt follower_count)"
  shows "score_playlist e (str_lower e mood) p =
           Inr ((if sublist (str_lower e mood) (str_lower e name) then 50 else 0)
                + (if sublist (str_lower e mood) (str_lower e description) then 30 else 0)
                + min (follower_count div 1000) 20)"
  using assms by (simp add: score_playlist_def contains_sublist)

text \<open>
  The example of the specification: "happy vibes" with 2000 followers scores 52, "sad songs"
  with 50000 followers scores 20, and the first is chosen.
\<close>

lemma ranker_example:
  "score_all offline_env (str_lower offline_env ''happy'') [] [happy_vibes, sad_songs]
     = Inr [(52, happy_vibes), (20, sad_songs)]
   \<and> choose_best_playlist offline_env [happy_vibes, sad_songs] ''happy''
     = Inr (Some happy_vibes)"
  by code_simp

text \<open>
  C2. The claim says that every candidate playlist is given a score, 30 of it for a mood
  found in the description. Evaluated on a candidate named "Happy Vibes" with 2000
  followers whose description is \<^verbatim>\<open>null\<close>, as the API gives it for a playlist without a
  description: the default of \<^verbatim>\<open>p.get("description", "")\<close> is not used for a key that is
  present, \<^verbatim>\<open>.lower()\<close> is called on \<^verbatim>\<open>None\<close>, and the call ends in \<^verbatim>\<open>AttributeError\<close>
  where the claim gives the score 52. This holds whatever the tables of the environment are.
\<close>

theorem score_with_null_description:
  "score_playlist e (str_lower e ''happy'') null_description = Inl AttributeError
   \<and> choose_best_playlist e [null_description] ''happy'' = Inl AttributeError"
  by (simp add: score_playlist_def choose_best_playlist_def null_description_def)

subsection \<open>The first maximal candidate wins\<close>

lemma sort_key_not_Nil: "ys \<noteq> [] \<Longrightarrow> sort_key f ys \<noteq> []"
proof
  assume a: "ys \<noteq> []" and b: "sort_key f ys = []"
  from b have "length (sort_key f ys) = 0" by simp
  then have "length ys = 0" by (simp only: length_sort)
  with a show False by simp
qed

lemma last_filter_keep: "xs \<noteq> [] \<Longrightarrow> P (last xs) \<Longrightarrow> last (filter P xs) = last xs"
proof (induction xs)
  case Nil
  then show ?case by simp
next
  case (Cons x xs)
  show ?case
  proof (cases "xs = []")
    case True
    with Cons.prems show ?thesis by simp
  next
    case False
    with Cons.prems have pl: "P (last xs)" by simp
    from Cons.IH [OF False pl] have ih: "last (filter P xs) = last xs" .
    have "last xs \<in> set xs" using False by simp
    with pl have "filter P xs \<noteq> []" by (auto simp: filter_empty_conv)
    with ih False show ?thesis by simp
  qed
qed

lemma hd_filter_first:
  "filter P xs \<noteq> [] \<Longrightarrow>
     \<exists>i<length xs. hd (filter P xs) = xs ! i \<and> P (xs ! i) \<and> (\<forall>j<i. \<not> P (xs ! j))"
proof (induction xs)
  case Nil
  then show ?case by simp
next
  case (Cons x xs)
  show ?case
  proof (cases "P x")
    case True
    then have "hd (filter P (x # xs)) = (x # xs) ! 0 \<and> P ((x # xs) ! 0)
        \<and> (\<forall>j<0. \<not> P ((x # xs) ! j))"
      by simp
    then show ?thesis by blast
  next
    case False
    with Cons.prems have "filter P xs \<noteq> []" by simp
    from Cons.IH [OF this] obtain i where i: "i < length xs" "hd (filter P xs) = xs ! i"
      "P (xs ! i)" "\<forall>j<i. \<not> P (xs ! j)" by blast
    have "\<forall>j<Suc i. \<not> P ((x # xs) ! j)"
    proof (intro allI impI)
      fix j assume "j < Suc i"
      then show "\<not> P ((x # xs) ! j)" using False i(4) by (cases j) auto
    qed
    with i False have "Suc i < length (x # xs) \<and> hd (filter P (x # xs)) = (x # xs) ! Suc i
        \<and> P ((x # xs) ! Suc i) \<and> (\<forall>j<Suc i. \<not> P ((x # xs) ! j))"
      by simp
    then show ?thesis by blast
  qed
qed

lemma last_sort_key_max:
  assumes "ys \<noteq> []"
  shows "\<forall>y\<in>set ys. f y \<le> f (last (sort_key f ys))"
proof
  fix y assume y: "y \<in> set ys"
  let ?zs = "sort_key f ys"
  have ne: "?zs \<noteq> []" using assms by (rule sort_key_not_Nil)
  have srt: "sorted (map f ?zs)" by (rule sorted_sort_key)
  from y have "y \<in> set ?zs" by (simp only: set_sort)
  then obtain n where n: "n < length ?zs" "?zs ! n = y" unfolding in_set_conv_nth by blast
  have "map f ?zs ! n \<le> map f ?zs ! (length ?zs - 1)"
    using srt n(1) by (intro sorted_nth_mono) auto
  then show "f y \<le> f (last ?zs)"
    using n ne by (simp add: last_conv_nth)
qed

lemma hd_sort_reverse_filter:
  assumes "xs \<noteq> []"
  shows "hd (sort_reverse f xs) = hd (filter (\<lambda>y. f y = f (hd (sort_reverse f xs))) xs)"
proof -
  let ?zs = "sort_key f (rev xs)"
  let ?k = "f (last ?zs)"
  have ne: "?zs \<noteq> []" using assms by (intro sort_key_not_Nil) simp
  have hd_last: "hd (sort_reverse f xs) = last ?zs"
    using ne by (simp add: sort_reverse_def hd_rev)
  have "last ?zs = last (filter (\<lambda>y. f y = ?k) ?zs)"
    using ne by (simp add: last_filter_keep)
  also have "\<dots> = last (filter (\<lambda>y. f y = ?k) (rev xs))"
    by (simp only: sort_key_stable)
  also have "\<dots> = last (rev (filter (\<lambda>y. f y = ?k) xs))"
    by (simp only: rev_filter)
  also have "\<dots> = hd (filter (\<lambda>y. f y = ?k) xs)"
    by (simp only: last_rev)
  finally show ?thesis using hd_last by simp
qed

lemma hd_sort_reverse:
  assumes "xs \<noteq> []"
  shows "\<exists>i<length xs. hd (sort_reverse f xs) = xs ! i
           \<and> (\<forall>j<length xs. f (xs ! j) \<le> f (xs ! i)) \<and> (\<forall>j<i. f (xs ! j) < f (xs ! i))"
proof -
  let ?b = "hd (sort_reverse f xs)"
  let ?P = "\<lambda>y. f y = f ?b"
  have ne: "sort_key f (rev xs) \<noteq> []" using assms by (intro sort_key_not_Nil) simp
  have b_last: "?b = last (sort_key f (rev xs))" using ne by (simp add: sort_reverse_def hd_rev)
  have mx: "\<forall>y\<in>set xs. f y \<le> f ?b"
    using last_sort_key_max [of "rev xs" f] assms b_last by simp
  have "last (sort_key f (rev xs)) \<in> set (sort_key f (rev xs))" using ne by (rule last_in_set)
  then have "?b \<in> set xs" using b_last by simp
  then have fne: "filter ?P xs \<noteq> []" by (auto simp: filter_empty_conv)
  from hd_filter_first [OF fne] obtain i where i: "i < length xs" "hd (filter ?P xs) = xs ! i"
     "\<forall>j<i. \<not> ?P (xs ! j)" by blast
  have bi: "?b = xs ! i" using hd_sort_reverse_filter [OF assms, of f] i(2) by simp
  have "\<forall>j<length xs. f (xs ! j) \<le> f (xs ! i)" using mx bi by simp
  moreover have "\<forall>j<i. f (xs ! j) < f (xs ! i)"
  proof (intro allI impI)
    fix j assume j: "j < i"
    then have "f (xs ! j) \<noteq> f ?b" using i(3) by blast
    moreover have "f (xs ! j) \<le> f ?b" using mx j i(1) by simp
    ultimately show "f (xs ! j) < f (xs ! i)" using bi by simp
  qed
  ultimately show ?thesis using i(1) bi by blast
qed

lemma score_all_zip:
  "map (score_playlist e m) ps = map Inr ss \<Longrightarrow> score_all e m acc ps = Inr (acc @ zip ss ps)"
proof (induction ps arbitrary: acc ss)
  case Nil
  then show ?case by simp
next
  case (Cons p ps)
  then obtain s ss' where ss: "ss = s # ss'" by (cases ss) auto
  with Cons.prems have "score_playlist e m p = Inr s" "map (score_playlist e m) ps = map Inr ss'"
    by auto
  with Cons.IH [of ss' "acc @ [(s, p)]"] ss show ?case by simp
qed

text \<open>
  The choice among scored candidates. For every non-empty candidate list whose candidates
  all get a score (\<open>scores\<close>, in the order of the list) and every mood,
  \<^verbatim>\<open>choose_best_playlist\<close> returns the candidate at an index \<open>i\<close> whose score is maximal, and
  every candidate before \<open>i\<close> has a strictly smaller score: among the candidates with the
  maximal score the first of the list wins.
\<close>

lemma choose_best_first_maximal:
  assumes "playlists \<noteq> []"
      and "map (score_playlist e (str_lower e mood)) playlists = map Inr scores"
  shows "\<exists>i<length playlists. choose_best_playlist e playlists mood = Inr (Some (playlists ! i))
           \<and> (\<forall>j<length playlists. scores ! j \<le> scores ! i)
           \<and> (\<forall>j<i. scores ! j < scores ! i)"
proof -
  let ?scored = "zip scores playlists"
  have "length (map (score_playlist e (str_lower e mood)) playlists)
          = length (map Inr scores :: (py_error + int) list)"
    using assms(2) by simp
  then have len: "length scores = length playlists" by simp
  have sa: "score_all e (str_lower e mood) [] playlists = Inr ?scored"
    using score_all_zip [OF assms(2), of "[]"] by simp
  have ne: "?scored \<noteq> []" using assms(1) len by (cases playlists; cases scores) auto
  from hd_sort_reverse [OF ne, of fst] obtain i where i: "i < length ?scored"
     "hd (sort_reverse fst ?scored) = ?scored ! i"
     "\<forall>j<length ?scored. fst (?scored ! j) \<le> fst (?scored ! i)"
     "\<forall>j<i. fst (?scored ! j) < fst (?scored ! i)" by blast
  have sne: "sort_reverse fst ?scored \<noteq> []"
    using sort_key_not_Nil [of "rev ?scored" fst] ne by (simp add: sort_reverse_def)
  then obtain b bs where b: "sort_reverse fst ?scored = b # bs"
    by (cases "sort_reverse fst ?scored") auto
  with i(2) have "b = ?scored ! i" by simp
  then have res: "choose_best_playlist e playlists mood = Inr (Some (playlists ! i))"
    using assms(1) sa b i(1) len by (simp add: choose_best_playlist_def)
  have il: "i < length playlists" using i(1) len by simp
  have "\<forall>j<length playlists. scores ! j \<le> scores ! i"
    using i(3) il len by auto
  moreover have "\<forall>j<i. scores ! j < scores ! i"
    using i(4) il len by auto
  ultimately show ?thesis using res il by blast
qed

text \<open>A tie: the second and the third candidate both score 52, and the second is chosen.\<close>

lemma choose_best_tie:
  "choose_best_playlist offline_env [sad_songs, happy_vibes, happy_mix] ''happy''
     = Inr (Some happy_vibes)
   \<and> map (score_playlist offline_env (str_lower offline_env ''happy''))
        [sad_songs, happy_vibes, happy_mix] = map Inr [20, 52, 52]"
  by code_simp

text \<open>
  C3. The claim says that for every non-empty candidate list the candidate with the maximal
  score is returned. Evaluated on the list of "sad songs" and the candidate whose
  description is \<^verbatim>\<open>null\<close>: the scoring loop raises \<^verbatim>\<open>AttributeError\<close> at the second
  candidate and no candidate is returned, where the claim gives the second candidate, whose
  score of 52 is the maximal one.
\<close>

theorem choose_best_with_null_description:
  "choose_best_playlist e [sad_songs, null_description] ''happy'' = Inl AttributeError"
  by (simp add: score_playlist_def choose_best_playlist_def null_description_def sad_songs_def
      Let_def)

section \<open>Properties of the token manager\<close>

lemma py_get_dict: "py_get (PDict kvs) k d = Inr (case map_of kvs k of None \<Rightarrow> d | Some v \<Rightarrow> v)"
  by (simp split: option.splits)

lemma py_get_Inr_dict: "py_get v k d = Inr x \<Longrightarrow> \<exists>kvs. v = PDict kvs"
  by (cases v) auto

lemma refresh_missing_credentials:
  "\<not> credentials_present t \<Longrightarrow>
     refresh_access_token e t w = (Inl (SpotifyAuthError Credentials_not_provided), t, w)"
  by (simp add: refresh_access_token_def credentials_present_def)

lemma refresh_cached:
  "credentials_present t \<Longrightarrow> cached_valid e t w \<Longrightarrow>
     refresh_access_token e t w = (Inr (access_token t), t, w\<lparr>ticks := Suc (ticks w)\<rparr>)"
  by (simp add: refresh_access_token_def credentials_present_def cached_valid_def Let_def)

lemma refresh_exchange:
  assumes "credentials_present t" and "\<not> cached_valid e t w"
  shows "refresh_access_token e t w =
           (fst (exchange_result e t w), snd (exchange_result e t w),
            \<lparr>ticks = Suc (ticks w), sent = sent w @ [token_request t]\<rparr>)"
proof (cases "server e (sent w) (token_request t)")
  case No_response
  then show ?thesis using assms
    by (simp add: refresh_access_token_def credentials_present_def cached_valid_def Let_def
        exchange_result_def)
next
  case (Response r)
  show ?thesis
  proof (cases "json_body r")
    case None
    then show ?thesis using assms Response
      by (simp add: refresh_access_token_def credentials_present_def cached_valid_def Let_def
          exchange_result_def)
  next
    case (Some v)
    show ?thesis
    proof (cases v)
      case (PDict body)
      show ?thesis
      proof (cases "declared_lifetime body")
        case (Inl x)
        then show ?thesis using assms Response Some PDict
          by (auto simp add: refresh_access_token_def credentials_present_def cached_valid_def Let_def
            exchange_result_def token_field_def declared_lifetime_def py_get_dict
            simp del: py_get.simps)
      next
        case (Inr n)
        then show ?thesis using assms Response Some PDict
          by (auto simp add: refresh_access_token_def credentials_present_def cached_valid_def Let_def
            exchange_result_def token_field_def declared_lifetime_def py_get_dict
            simp del: py_get.simps)
      qed
    qed (use assms Response Some in \<open>simp_all add: refresh_access_token_def credentials_present_def
          cached_valid_def Let_def exchange_result_def\<close>)
  qed
qed


lemma py_number_error: "py_number v = Inl x \<Longrightarrow> x = TypeError"
  by (cases v) auto

lemma declared_lifetime_error: "declared_lifetime body = Inl x \<Longrightarrow> x = TypeError"
  unfolding declared_lifetime_def by (rule py_number_error)



lemma exchange_result_success:
  "fst (exchange_result e t w) = Inr tok \<Longrightarrow>
     \<exists>r body lifetime. server e (sent w) (token_request t) = Response r
        \<and> json_body r = Some (PDict body) \<and> declared_lifetime body = Inr lifetime
        \<and> snd (exchange_result e t w) =
            t\<lparr>access_token := tok,
              token_expires_at := clock e (ticks w)
                 + real_of_int (min lifetime (token_cache_seconds t))\<rparr>"
  by (auto simp: exchange_result_def split: http_outcome.splits option.splits pyval.splits sum.splits if_splits)

text \<open>
  C1, amended. With the three credentials present: while a cached token exists and the
  clock is before its expiry, the call sends nothing and returns the cached token, leaving
  the tool as it was; otherwise it sends exactly one request, the refresh request; and when
  that refresh returns a token, the token is cached and the expiry is the time read plus
  the smaller of the lifetime declared by the server (3600 when it declares none) and the
  configured ceiling.
\<close>

theorem token_reuse:
  assumes "credentials_present t"
  shows "(cached_valid e t w \<longrightarrow>
            refresh_access_token e t w = (Inr (access_token t), t, w\<lparr>ticks := Suc (ticks w)\<rparr>))
       \<and> (\<not> cached_valid e t w \<longrightarrow>
            sent (snd (snd (refresh_access_token e t w))) = sent w @ [token_request t])
       \<and> (\<not> cached_valid e t w \<longrightarrow>
            (\<forall>tok. fst (refresh_access_token e t w) = Inr tok \<longrightarrow>
               (\<exists>r body lifetime. server e (sent w) (token_request t) = Response r
                  \<and> json_body r = Some (PDict body) \<and> declared_lifetime body = Inr lifetime
                  \<and> fst (snd (refresh_access_token e t w)) =
                      t\<lparr>access_token := tok,
                        token_expires_at := clock e (ticks w)
                           + real_of_int (min lifetime (token_cache_seconds t))\<rparr>)))"
proof (intro conjI impI allI)
  assume "cached_valid e t w"
  with assms show "refresh_access_token e t w = (Inr (access_token t), t, w\<lparr>ticks := Suc (ticks w)\<rparr>)"
    by (rule refresh_cached)
next
  assume "\<not> cached_valid e t w"
  with assms show "sent (snd (snd (refresh_access_token e t w))) = sent w @ [token_request t]"
    by (simp add: refresh_exchange)
next
  fix tok
  assume nc: "\<not> cached_valid e t w" and ok: "fst (refresh_access_token e t w) = Inr tok"
  from refresh_exchange [OF assms nc] ok have "fst (exchange_result e t w) = Inr tok" by simp
  from exchange_result_success [OF this] refresh_exchange [OF assms nc]
  show "\<exists>r body lifetime. server e (sent w) (token_request t) = Response r
                  \<and> json_body r = Some (PDict body) \<and> declared_lifetime body = Inr lifetime
                  \<and> fst (snd (refresh_access_token e t w)) =
                      t\<lparr>access_token := tok,
                        token_expires_at := clock e (ticks w)
                           + real_of_int (min lifetime (token_cache_seconds t))\<rparr>"
    by simp
qed



text \<open>The frame of the cache: an authentication error leaves the tool as it was, and a call of the API changes the tool only through the refresh.\<close>

lemma auth_error_keeps_cache:
  assumes "fst (refresh_access_token e t w) = Inl (SpotifyAuthError f)"
  shows "fst (snd (refresh_access_token e t w)) = t"
proof (cases "credentials_present t")
  case False
  then show ?thesis by (simp add: refresh_missing_credentials)
next
  case True
  show ?thesis
  proof (cases "cached_valid e t w")
    case cv: True
    with True show ?thesis by (simp add: refresh_cached)
  next
    case cv: False
    from refresh_exchange [OF True cv] assms
    have "fst (exchange_result e t w) = Inl (SpotifyAuthError f)" by simp
    then have "snd (exchange_result e t w) = t"
      by (auto simp: exchange_result_def dest: declared_lifetime_error
          split: http_outcome.splits option.splits pyval.splits sum.splits if_splits)
    with refresh_exchange [OF True cv] show ?thesis by simp
  qed
qed

lemma call_spotify_tool:
  "fst (snd (call_spotify e url params t w)) = fst (snd (refresh_access_token e t w))"
  by (simp add: call_spotify_def Let_def split: prod.splits sum.splits http_outcome.splits option.splits)

text \<open>
  C1, as stated, fails: a tool without credentials and with an empty cache sends no refresh
  request at all; the call raises the authentication error before the cache is read.
\<close>

theorem no_refresh_without_credentials:
  "access_token unconfigured_tool = PNone
   \<and> refresh_access_token offline_env unconfigured_tool world0
       = (Inl (SpotifyAuthError Credentials_not_provided), unconfigured_tool, world0)
   \<and> sent world0 = []"
  by (simp add: refresh_access_token_def unconfigured_tool_def world0_def present_def)


text \<open>
  C9. The claim says that the cached token and its expiry are replaced only by a
  successful refresh. Evaluated on a refresh answered with status 200, a token and the
  lifetime \<^verbatim>\<open>null\<close>: the call raises \<^verbatim>\<open>TypeError\<close>, yet the cached token has been replaced,
  and the expiry still is the old one.
\<close>

theorem failed_refresh_replaces_token:
  "refresh_access_token null_lifetime_env stale_tool world0
     = (Inl TypeError, stale_tool\<lparr>access_token := PStr ''new-token''\<rparr>,
        \<lparr>ticks = 1, sent = [token_request stale_tool]\<rparr>)"
  by (simp add: refresh_access_token_def stale_tool_def configured_tool_def world0_def present_def
      null_lifetime_env_def offline_env_def json_server_def Let_def)

theorem token_reuse_witness:
  "refresh_access_token fresh_token_env cached_tool world0
      = (Inr (PStr ''cached-token''), cached_tool, \<lparr>ticks = 1, sent = []\<rparr>)
   \<and> sent (snd (snd (refresh_access_token fresh_token_env stale_tool world0)))
      = [token_request stale_tool]"
proof -
  have c1: "credentials_present cached_tool"
    by (simp add: cached_tool_def configured_tool_def credentials_present_def present_def)
  have c2: "credentials_present stale_tool"
    by (simp add: stale_tool_def configured_tool_def credentials_present_def present_def)
  have v1: "cached_valid fresh_token_env cached_tool world0"
    by (simp add: cached_valid_def cached_tool_def fresh_token_env_def offline_env_def world0_def)
  have v2: "\<not> cached_valid fresh_token_env stale_tool world0"
    by (simp add: cached_valid_def stale_tool_def fresh_token_env_def offline_env_def world0_def)
  from token_reuse [OF c1, of fresh_token_env world0] v1
  have "refresh_access_token fresh_token_env cached_tool world0
      = (Inr (access_token cached_tool), cached_tool, world0\<lparr>ticks := Suc (ticks world0)\<rparr>)"
    by blast
  moreover from token_reuse [OF c2, of fresh_token_env world0] v2
  have "sent (snd (snd (refresh_access_token fresh_token_env stale_tool world0)))
      = sent world0 @ [token_request stale_tool]"
    by blast
  ultimately show ?thesis by (simp add: cached_tool_def world0_def)
qed

section \<open>Properties of the search client\<close>

lemma chars_Nil_iff: "chars s = [] \<longleftrightarrow> s = []"
  by (cases s) simp_all

lemma chars_not_empty: "c \<in> set (chars s) \<Longrightarrow> c \<noteq> []"
  by (induction s rule: chars.induct) auto

lemma strip_chars_empty_iff: "strip_chars cs = [] \<longleftrightarrow> (\<forall>c\<in>set cs. py_isspace c)"
proof
  assume a: "strip_chars cs = []"
  then have "dropWhile py_isspace (rev (dropWhile py_isspace cs)) = []"
    by (simp add: strip_chars_def)
  then have "\<forall>c\<in>set (rev (dropWhile py_isspace cs)). py_isspace c"
    using dropWhile_eq_Nil_conv [of py_isspace "rev (dropWhile py_isspace cs)"] by blast
  then have all: "\<forall>c\<in>set (dropWhile py_isspace cs). py_isspace c" by simp
  have "dropWhile py_isspace cs = []"
  proof (rule ccontr)
    assume ne: "dropWhile py_isspace cs \<noteq> []"
    then have "\<not> py_isspace (hd (dropWhile py_isspace cs))" by (rule hd_dropWhile)
    moreover have "hd (dropWhile py_isspace cs) \<in> set (dropWhile py_isspace cs)"
      using ne by (rule hd_in_set)
    ultimately show False using all by blast
  qed
  then show "\<forall>c\<in>set cs. py_isspace c"
    using dropWhile_eq_Nil_conv [of py_isspace cs] by blast
next
  assume "\<forall>c\<in>set cs. py_isspace c"
  then have dw: "dropWhile py_isspace cs = []"
    using dropWhile_eq_Nil_conv [of py_isspace cs] by blast
  show "strip_chars cs = []" by (simp only: strip_chars_def dw rev.simps dropWhile.simps)
qed

lemma strip_chars_subset: "set (strip_chars cs) \<subseteq> set cs"
proof
  fix c assume "c \<in> set (strip_chars cs)"
  then have "c \<in> set (dropWhile py_isspace (rev (dropWhile py_isspace cs)))"
    by (simp add: strip_chars_def)
  then have "c \<in> set (rev (dropWhile py_isspace cs))" by (rule set_dropWhileD)
  then have "c \<in> set (dropWhile py_isspace cs)" by simp
  then show "c \<in> set cs" by (rule set_dropWhileD)
qed

lemma strip_empty_iff: "strip s = [] \<longleftrightarrow> (\<forall>c\<in>set (chars s). py_isspace c)"
proof -
  have "strip s = [] \<longleftrightarrow> strip_chars (chars s) = []"
  proof
    assume a: "strip s = []"
    show "strip_chars (chars s) = []"
    proof (rule ccontr)
      assume ne: "strip_chars (chars s) \<noteq> []"
      then have m: "hd (strip_chars (chars s)) \<in> set (strip_chars (chars s))" by (rule hd_in_set)
      with strip_chars_subset have "hd (strip_chars (chars s)) \<in> set (chars s)" by blast
      then have "hd (strip_chars (chars s)) \<noteq> []" by (rule chars_not_empty)
      moreover from a have "\<forall>c\<in>set (strip_chars (chars s)). c = []" by (simp add: strip_def)
      ultimately show False using m by blast
    qed
  next
    assume "strip_chars (chars s) = []"
    then show "strip s = []" by (simp add: strip_def)
  qed
  then show ?thesis by (simp only: strip_chars_empty_iff)
qed

lemma call_spotify_no_token:
  "refresh_access_token e t w = (Inl x, t1, w1) \<Longrightarrow> call_spotify e url params t w = (Inl x, t1, w1)"
  by (simp add: call_spotify_def)

lemma call_spotify_sent:
  "refresh_access_token e t w = (Inr tok, t1, w1) \<Longrightarrow>
     sent (snd (snd (call_spotify e url params t w))) = sent w1 @ [GET url (Bearer tok) params]"
  by (simp add: call_spotify_def Let_def split: http_outcome.splits sum.splits option.splits)

lemma search_playlists_world:
  "\<not> (mood = [] \<or> strip mood = []) \<Longrightarrow>
     snd (search_playlists e mood limit t w)
       = snd (call_spotify e SPOTIFY_SEARCH_URL (search_params mood limit) t w)"
  by (simp add: search_playlists_def split: prod.splits sum.splits)

lemma search_playlists_no_token:
  "\<not> (mood = [] \<or> strip mood = []) \<Longrightarrow> refresh_access_token e t w = (Inl x, t1, w1) \<Longrightarrow>
     search_playlists e mood limit t w = (Inl x, t1, w1)"
  by (simp add: search_playlists_def call_spotify_no_token)

text \<open>
  C6. For every mood that is empty or whose characters are all whitespace (the whitespace
  of Python, ASCII or not), \<^verbatim>\<open>search_playlists\<close>
  raises \<^verbatim>\<open>ValueError\<close> and leaves the tool and the world as they were: no request is sent,
  no token is refreshed, the clock is not read. For every mood with a character that is not
  whitespace, the call fails as the token step does when that fails, and otherwise sends,
  after the token step, exactly one request: the search with the query \<open>mood @ '' playlist''\<close>.
\<close>

theorem search_playlists_mood:
  "((mood = [] \<or> (\<forall>c\<in>set (chars mood). py_isspace c)) \<longrightarrow>
      search_playlists e mood limit t w = (Inl (ValueError ''Invalid mood value (empty).''), t, w))
   \<and> ((\<exists>c\<in>set (chars mood). \<not> py_isspace c) \<longrightarrow>
      (case refresh_access_token e t w of
         (Inl x, t1, w1) \<Rightarrow> search_playlists e mood limit t w = (Inl x, t1, w1)
       | (Inr tok, t1, w1) \<Rightarrow>
           sent (snd (snd (search_playlists e mood limit t w)))
             = sent w1 @ [GET SPOTIFY_SEARCH_URL (Bearer tok)
                            [(''q'', PStr (mood @ '' playlist'')), (''type'', PStr ''playlist''),
                             (''limit'', PInt limit)]]))"
proof (intro conjI impI)
  assume "mood = [] \<or> (\<forall>c\<in>set (chars mood). py_isspace c)"
  then have "mood = [] \<or> strip mood = []" by (simp only: strip_empty_iff)
  then show "search_playlists e mood limit t w = (Inl (ValueError ''Invalid mood value (empty).''), t, w)"
    by (simp add: search_playlists_def)
next
  assume ex: "\<exists>c\<in>set (chars mood). \<not> py_isspace c"
  then have "strip mood \<noteq> []" by (simp only: strip_empty_iff) blast
  moreover from ex have "mood \<noteq> []" by auto
  ultimately have ne: "\<not> (mood = [] \<or> strip mood = [])" by blast
  obtain r t1 w1 where rf: "refresh_access_token e t w = (r, t1, w1)"
    by (cases "refresh_access_token e t w") auto
  show "case refresh_access_token e t w of
         (Inl x, t1, w1) \<Rightarrow> search_playlists e mood limit t w = (Inl x, t1, w1)
       | (Inr tok, t1, w1) \<Rightarrow>
           sent (snd (snd (search_playlists e mood limit t w)))
             = sent w1 @ [GET SPOTIFY_SEARCH_URL (Bearer tok)
                            [(''q'', PStr (mood @ '' playlist'')), (''type'', PStr ''playlist''),
                             (''limit'', PInt limit)]]"
  proof (cases r)
    case (Inl x)
    with rf search_playlists_no_token [OF ne, of e t w x t1 w1 limit] show ?thesis by simp
  next
    case (Inr tok)
    with rf have rf': "refresh_access_token e t w = (Inr tok, t1, w1)" by simp
    from call_spotify_sent [OF rf', of SPOTIFY_SEARCH_URL "search_params mood limit"]
         search_playlists_world [OF ne, of e limit t w]
    have "sent (snd (snd (search_playlists e mood limit t w)))
            = sent w1 @ [GET SPOTIFY_SEARCH_URL (Bearer tok) (search_params mood limit)]"
      by simp
    with rf' show ?thesis by (simp add: search_params_def)
  qed
qed

theorem search_playlists_mood_witness:
  "search_playlists offline_env ''  '' 10 configured_tool world0
     = (Inl (ValueError ''Invalid mood value (empty).''), configured_tool, world0)
   \<and> search_playlists offline_env [CHR 0xC2, CHR 0xA0] 10 configured_tool world0
     = (Inl (ValueError ''Invalid mood value (empty).''), configured_tool, world0)
   \<and> sent (snd (snd (search_playlists offline_env ''happy'' 10 cached_tool world0)))
     = [GET SPOTIFY_SEARCH_URL (Bearer (PStr ''cached-token''))
          [(''q'', PStr ''happy playlist''), (''type'', PStr ''playlist''), (''limit'', PInt 10)]]"
proof -
  have blank: "''  '' = [] \<or> (\<forall>c\<in>set (chars ''  ''). py_isspace c)"
    by code_simp
  have nbsp: "[CHR 0xC2, CHR 0xA0] = [] \<or> (\<forall>c\<in>set (chars [CHR 0xC2, CHR 0xA0]). py_isspace c)"
    by code_simp
  have word: "\<exists>c\<in>set (chars ''happy''). \<not> py_isspace c"
    by code_simp
  have token: "refresh_access_token offline_env cached_tool world0
                 = (Inr (PStr ''cached-token''), cached_tool, \<lparr>ticks = 1, sent = []\<rparr>)"
    by (simp add: refresh_access_token_def cached_tool_def configured_tool_def world0_def
        present_def offline_env_def Let_def)
  from search_playlists_mood [of "''  ''" offline_env 10 configured_tool world0,
      THEN conjunct1, THEN mp, OF blank]
  have a: "search_playlists offline_env ''  '' 10 configured_tool world0
     = (Inl (ValueError ''Invalid mood value (empty).''), configured_tool, world0)" .
  from search_playlists_mood [of "[CHR 0xC2, CHR 0xA0]" offline_env 10 configured_tool world0,
      THEN conjunct1, THEN mp, OF nbsp]
  have n: "search_playlists offline_env [CHR 0xC2, CHR 0xA0] 10 configured_tool world0
     = (Inl (ValueError ''Invalid mood value (empty).''), configured_tool, world0)" .
  from search_playlists_mood [of "''happy''" offline_env 10 cached_tool world0,
      THEN conjunct2, THEN mp, OF word]
  have "case refresh_access_token offline_env cached_tool world0 of
         (Inl x, t1, w1) \<Rightarrow> search_playlists offline_env ''happy'' 10 cached_tool world0 = (Inl x, t1, w1)
       | (Inr tok, t1, w1) \<Rightarrow>
           sent (snd (snd (search_playlists offline_env ''happy'' 10 cached_tool world0)))
             = sent w1 @ [GET SPOTIFY_SEARCH_URL (Bearer tok)
                            [(''q'', PStr (''happy'' @ '' playlist'')), (''type'', PStr ''playlist''),
                             (''limit'', PInt 10)]]"
    .
  then have b: "sent (snd (snd (search_playlists offline_env ''happy'' 10 cached_tool world0)))
     = [GET SPOTIFY_SEARCH_URL (Bearer (PStr ''cached-token''))
          [(''q'', PStr ''happy playlist''), (''type'', PStr ''playlist''), (''limit'', PInt 10)]]"
    by (simp add: token)
  from a n b show ?thesis by (intro conjI)
qed

text \<open>
  When the server answers 429 and the hint is absent or the text of an integer, the error
  is the search error whose message carries that integer.
\<close>

lemma rate_limit_message:
  assumes "refresh_access_token e t w = (Inr tok, t1, w1)"
      and "server e (sent w1) (GET url (Bearer tok) params) = Response r"
      and "status_code r = 429"
      and "py_int e (header_get e (headers r) ''Retry-After'' ''1'') = Inr n"
  shows "fst (call_spotify e url params t w)
           = Inl (SpotifySearchError
                   (''Rate limited by Spotify. Retry after '' @ str_of_int n @ '' seconds.''))"
  using assms by (simp add: call_spotify_def Let_def)

text \<open>
  C5. The claim says that every answer with status 429 is raised as a search error whose
  message has the value of the \<^verbatim>\<open>Retry-After\<close> header. Evaluated on a 429 whose hint is a
  date, as HTTP allows: \<^verbatim>\<open>int(...)\<close> fails, and the search raises a \<^verbatim>\<open>ValueError\<close> instead.
\<close>

theorem rate_limit_with_date_hint:
  "fst (search_playlists rate_limited_env ''happy'' 10 cached_tool world0)
     = Inl (IntLiteralError ''Wed, 21 Oct 2015 07:28:00 GMT'')"
  by code_simp

text \<open>
  C4. The claim says that at most \<open>top_n\<close> tracks are returned for every \<open>top_n\<close>. Evaluated
  with \<open>top_n = 0\<close> on a playlist of two tracks: the loop appends the first track before it
  compares the length, and one track is returned.
\<close>

theorem top_tracks_with_zero:
  "fst (get_playlist_top_tracks two_tracks_env (PStr ''pl1'') 0 cached_tool world0)
     = Inr [PDict [(''name'', PStr ''Song A''), (''artists'', PStr ''Band''),
                   (''preview_url'', PNone),
                   (''track_url'', PStr ''https://open.spotify.com/track/1'')]]"
  by code_simp

text \<open>
  For \<open>top_n\<close> of at least one, and a response whose entries are dictionaries and whose
  tracks can be simplified: the result is the first \<open>top_n\<close> simplified tracks, in the order
  of the response, entries without a track left out.
\<close>

lemma collect_tracks_take:
  assumes "map (\<lambda>it. py_get it ''track'' PNone) items = map Inr payloads"
      and "map simplify_track (filter truthy payloads) = map Inr simplified"
      and "int (length acc) < top_n"
  shows "collect_tracks top_n acc items = Inr (take (nat top_n) (acc @ simplified))"
  using assms
proof (induction items arbitrary: acc payloads simplified)
  case Nil
  then show ?case by simp
next
  case (Cons it items)
  from Cons.prems(1) obtain p ps where ps: "payloads = p # ps" "py_get it ''track'' PNone = Inr p"
    "map (\<lambda>it. py_get it ''track'' PNone) items = map Inr ps"
    by (cases payloads) auto
  show ?case
  proof (cases "truthy p")
    case False
    with Cons.prems(2) ps(1) have "map simplify_track (filter truthy ps) = map Inr simplified"
      by simp
    from Cons.IH [OF ps(3) this Cons.prems(3)] False ps(2) show ?thesis by simp
  next
    case True
    with Cons.prems(2) ps(1) obtain s ss where ss: "simplified = s # ss" "simplify_track p = Inr s"
      "map simplify_track (filter truthy ps) = map Inr ss"
      by (cases simplified) auto
    show ?thesis
    proof (cases "int (length (acc @ [s])) \<ge> top_n")
      case full: True
      with Cons.prems(3) have "nat top_n = Suc (length acc)" by simp
      then have "take (nat top_n) (acc @ simplified) = acc @ [s]" using ss(1) by simp
      with full True ps(2) ss(2) show ?thesis by (simp add: Let_def)
    next
      case more: False
      then have "int (length (acc @ [s])) < top_n" by simp
      from Cons.IH [OF ps(3) ss(3) this] more True ps(2) ss(2) ss(1) show ?thesis
        by (simp add: Let_def)
    qed
  qed
qed

lemma collect_tracks_length:
  "collect_tracks top_n acc items = Inr res \<Longrightarrow> int (length acc) < top_n \<Longrightarrow>
     int (length res) \<le> top_n"
proof (induction items arbitrary: acc)
  case Nil
  then show ?case by simp
next
  case (Cons it items)
  from Cons.prems(1) obtain track where tr: "py_get it ''track'' PNone = Inr track"
    by (cases "py_get it ''track'' PNone") auto
  show ?case
  proof (cases "truthy track")
    case False
    with Cons.prems tr have "collect_tracks top_n acc items = Inr res" by simp
    from Cons.IH [OF this Cons.prems(2)] show ?thesis .
  next
    case True
    with Cons.prems(1) tr obtain s where s: "simplify_track track = Inr s"
      by (cases "simplify_track track") auto
    show ?thesis
    proof (cases "int (length (acc @ [s])) \<ge> top_n")
      case full: True
      with Cons.prems tr True s have "res = acc @ [s]" by (simp add: Let_def)
      with Cons.prems(2) show ?thesis by simp
    next
      case more: False
      with Cons.prems tr True s have "collect_tracks top_n (acc @ [s]) items = Inr res"
        by (simp add: Let_def)
      moreover from more have "int (length (acc @ [s])) < top_n" by simp
      ultimately show ?thesis by (rule Cons.IH)
    qed
  qed
qed

section \<open>Properties of the formatter\<close>

lemma track_lines_map:
  "map (\<lambda>(n, t). track_line e (i + int n) t) (enumerate 0 ts) = map Inr ls \<Longrightarrow>
     track_lines e i acc ts = Inr (acc @ ls)"
proof (induction ts arbitrary: i acc ls)
  case Nil
  then show ?case by simp
next
  case (Cons t ts)
  from Cons.prems obtain l ls' where ls: "ls = l # ls'" "track_line e i t = Inr l"
     "map (\<lambda>(n, t). track_line e (i + int n) t) (enumerate (Suc 0) ts) = map Inr ls'"
    by (cases ls) auto
  have "map (\<lambda>(n, t). track_line e (i + int n) t) (enumerate (Suc 0) ts)
        = map (\<lambda>(n, t). track_line e ((i + 1) + int n) t) (enumerate 0 ts)"
    by (auto simp add: enumerate_eq_zip map_Suc_upt [symmetric] zip_map1 add.assoc
        simp del: upt_Suc)
  with ls(3) have "map (\<lambda>(n, t). track_line e ((i + 1) + int n) t) (enumerate 0 ts) = map Inr ls'"
    by simp
  from Cons.IH [OF this, of "acc @ [l]"] ls show ?case by simp
qed

lemma py_get_field: "py_get (PDict d) k PNone = Inr (field d k)"
  by (simp add: field_def split: option.splits)

lemma track_line_entry: "track_line e (1 + int n) (PDict t) = Inr (track_entry e (Suc n) t)"
  by (simp add: track_line_def track_entry_def py_get_field py_or_def Let_def add.commute
      del: py_get.simps)

lemma entries_of_dicts:
  "map (\<lambda>(n, t). track_line e (1 + int n) t) (enumerate 0 (map PDict tracks))
     = map Inr (map (\<lambda>(n, t). track_entry e (Suc n) t) (enumerate 0 tracks))"
  by (simp add: enumerate_eq_zip zip_map2 track_line_entry split_beta)

text \<open>
  C8, amended. For every result whose playlist is a dictionary and whose tracks are a list
  of dictionaries, \<^verbatim>\<open>format_result\<close> gives the lines, joined by newlines: the name and the
  owner of the playlist; the link line only when the link is not empty; the description
  line only when the description is not empty; the line of the recommendations; the line
  "No tracks found in the playlist." only when the track list is empty; then one entry for
  every track of the result, in order and numbered from 1, as rank, name, artists and the
  preview, else the link, else "No preview". The formatter does not cut the list. With an
  empty track list there is no entry.
\<close>

theorem format_result_layout:
  assumes "py_get result ''playlist'' (PDict []) = Inr (PDict playlist)"
      and "py_get result ''tracks'' (PList []) = Inr (PList (map PDict tracks))"
  shows "format_result e result =
           Inr (join newline
                 (heading e playlist
                  @ (if tracks = [] then [''No tracks found in the playlist.''] else [])
                  @ map (\<lambda>(n, t). track_entry e (Suc n) t) (enumerate 0 tracks)))
         \<and> (tracks = [] \<longrightarrow>
              format_result e result =
                Inr (join newline (heading e playlist @ [''No tracks found in the playlist.''])))"
proof -
  let ?head = "heading e playlist
                  @ (if tracks = [] then [''No tracks found in the playlist.''] else [])"
  have tl: "track_lines e 1 ?head (map PDict tracks)
              = Inr (?head @ map (\<lambda>(n, t). track_entry e (Suc n) t) (enumerate 0 tracks))"
    by (rule track_lines_map) (rule entries_of_dicts)
  have main: "format_result e result =
           Inr (join newline
                 (?head @ map (\<lambda>(n, t). track_entry e (Suc n) t) (enumerate 0 tracks)))"
    using assms tl
    by (cases "truthy (field playlist ''external_url'')";
        cases "truthy (field playlist ''description'')"; cases "tracks = []")
       (simp_all add: format_result_def py_get_field heading_def Let_def del: py_get.simps)
  then show ?thesis by simp
qed

theorem format_result_layout_witness:
  "format_result offline_env empty_result =
     Inr (join newline
           [''Recommended playlist: Mix (by None)'', ''Playlist link: http://x'',
            newline @ ''Top recommendations:'', ''No tracks found in the playlist.''])"
proof -
  have h1: "py_get empty_result ''playlist'' (PDict [])
              = Inr (PDict [(''name'', PStr ''Mix''), (''owner'', PNone),
                            (''external_url'', PStr ''http://x''), (''description'', PStr [])])"
    by (simp add: empty_result_def)
  have h2: "py_get empty_result ''tracks'' (PList []) = Inr (PList (map PDict []))"
    by (simp add: empty_result_def)
  have lines: "heading offline_env [(''name'', PStr ''Mix''), (''owner'', PNone),
                            (''external_url'', PStr ''http://x''), (''description'', PStr [])]
               @ [''No tracks found in the playlist.'']
             = [''Recommended playlist: Mix (by None)'', ''Playlist link: http://x'',
                newline @ ''Top recommendations:'', ''No tracks found in the playlist.'']"
    by (simp add: heading_def field_def py_str_def)
  from format_result_layout [OF h1 h2, of offline_env, THEN conjunct2]
  have "format_result offline_env empty_result =
          Inr (join newline
                (heading offline_env [(''name'', PStr ''Mix''), (''owner'', PNone),
                            (''external_url'', PStr ''http://x''), (''description'', PStr [])]
                 @ [''No tracks found in the playlist.'']))"
    by simp
  then show ?thesis by (simp only: lines)
qed

text \<open>
  C8, as stated, fails: a result with six tracks is rendered with six entries, not with at
  most five.
\<close>

theorem format_result_six_tracks:
  "format_result offline_env six_tracks =
   Inr (join newline
     [''Recommended playlist: Mix (by Ann)'', newline @ ''Top recommendations:'',
      ''1. a '' @ em_dash @ '' Band  |  Preview/Link: No preview'',
      ''2. b '' @ em_dash @ '' Band  |  Preview/Link: No preview'',
      ''3. c '' @ em_dash @ '' Band  |  Preview/Link: No preview'',
      ''4. d '' @ em_dash @ '' Band  |  Preview/Link: No preview'',
      ''5. e '' @ em_dash @ '' Band  |  Preview/Link: No preview'',
      ''6. f '' @ em_dash @ '' Band  |  Preview/Link: No preview''])"
  by code_simp

section \<open>Properties of the top-level helper\<close>

text \<open>
  C10. For every mood, with or without an agent, whatever the agent, the server and the
  clock do: \<^verbatim>\<open>handle_mood_with_agent\<close> returns a text. Every exception of the agent, of the
  tool and of the formatter ends in one of the handlers and becomes part of the text.
\<close>

theorem handle_mood_returns_text:
  "\<exists>s. fst (handle_mood_with_agent e root_agent mood t w) = Inr s"
proof (cases root_agent)
  case None
  obtain r t1 w1 where d: "direct_call e mood t w = (r, t1, w1)"
    by (cases "direct_call e mood t w") auto
  show ?thesis
  proof (cases r)
    case (Inl x)
    with None d show ?thesis
      by (cases x) (simp_all add: handle_mood_with_agent_def)
  next
    case (Inr s)
    with None d show ?thesis by (simp add: handle_mood_with_agent_def)
  qed
next
  case (Some ag)
  obtain r t1 w1 where a: "ask_agent ag mood t w = (r, t1, w1)"
    by (cases "ask_agent ag mood t w") auto
  show ?thesis
  proof (cases r)
    case (Inr answer)
    with Some a show ?thesis by (simp add: handle_mood_with_agent_def)
  next
    case (Inl x)
    obtain r2 t2 w2 where d: "direct_call e mood t1 w1 = (r2, t2, w2)"
      by (cases "direct_call e mood t1 w1") auto
    with Some a Inl show ?thesis
      by (cases r2) (simp_all add: handle_mood_with_agent_def Let_def)
  qed
qed

theorem handle_mood_returns_text_witness:
  "\<exists>s. fst (handle_mood_with_agent offline_env None ''happy'' unconfigured_tool world0) = Inr s"
  by (rule handle_mood_returns_text)

lemma handle_mood_without_credentials:
  "fst (handle_mood_with_agent offline_env None ''happy'' unconfigured_tool world0)
     = Inr ''Unexpected error: Spotify client ID / secret / refresh token not provided.''"
  by code_simp

end
